theory Spec2Isabelle
  imports Complex_Main "HOL-Library.Word"
begin

unbundle bit_operations_syntax

section \<open>Data model of gui.py\<close>

text \<open>
  A Python \<open>bytes\<close> object is a list of 8-bit words; indexing it gives a Python integer
  in 0..255, which is \<open>uint\<close> of the word. Python integers are unbounded: \<open>int\<close>.

  \<open>int(x)\<close> on a finite float truncates towards zero.
\<close>

type_synonym byte = "8 word"
type_synonym bytes = "byte list"

definition py_int :: "real \<Rightarrow> int" where
  "py_int x = (if 0 \<le> x then \<lfloor>x\<rfloor> else \<lceil>x\<rceil>)"

text \<open>
  The exceptions that play a part: \<open>RangeError\<close> and \<open>FieldError\<close> are the two
  classes imported from \<open>construct\<close> (line 7) and caught in \<open>setBeatgridData\<close>;
  \<open>TypeError\<close> is what \<open>len(None)\<close> raises; \<open>OverflowError\<close> is what the conversion
  of a too large integer to a float and \<open>int()\<close> of an infinite float raise;
  \<open>OtherException\<close> stands for any exception of another class. No handler in gui.py
  catches any of the last three.
\<close>

datatype exception = RangeError | FieldError | TypeError | OverflowError | OtherException

subsection \<open>Floating point\<close>

text \<open>
  A Python float is an IEEE 754 double. A finite double is modelled by the real number it
  denotes, and every float argument of the widgets is finite (the specification's relative
  values are real numbers in [0, 1]); infinities arise only as the result of a product.

  \<open>round_to_double x\<close> is the double nearest to the real \<open>x\<close>: a significand of 53
  bits, ties to the even significand, and the fixed spacing \<open>2 ^ -1074\<close> below
  \<open>2 ^ -1022\<close> (gradual underflow). The product of two doubles is the rounded exact
  product, and the conversion of an integer is the rounded integer. A rounded magnitude of
  \<open>2 ^ 1024\<close> or more is out of range: the conversion of an integer raises
  \<open>OverflowError\<close>, a product is an infinity (\<open>None\<close>), on which \<open>int()\<close> raises
  \<open>OverflowError\<close>.
\<close>

definition round_half_even :: "real \<Rightarrow> int" where
  "round_half_even m =
     (let f = \<lfloor>m\<rfloor>
      in if m - of_int f < 1 / 2 then f
         else if 1 / 2 < m - of_int f then f + 1
         else if even f then f else f + 1)"

definition float_exponent :: "real \<Rightarrow> int" where
  "float_exponent x = max \<lfloor>log 2 \<bar>x\<bar>\<rfloor> (- 1022)"

definition float_ulp :: "real \<Rightarrow> real" where
  "float_ulp x = 2 powi (float_exponent x - 52)"

definition round_to_double :: "real \<Rightarrow> real" where
  "round_to_double x = of_int (round_half_even (x / float_ulp x)) * float_ulp x"

definition float_overflow :: "real \<Rightarrow> bool" where
  "float_overflow x = (2 powi 1024 \<le> \<bar>round_to_double x\<bar>)"

definition py_float_of_int :: "int \<Rightarrow> exception + real" where
  "py_float_of_int n =
     (if float_overflow (of_int n) then Inl OverflowError else Inr (round_to_double (of_int n)))"

definition py_float_mul :: "real \<Rightarrow> real \<Rightarrow> real option" where
  "py_float_mul x y = (if float_overflow (x * y) then None else Some (round_to_double (x * y)))"

definition py_int_of_float :: "real option \<Rightarrow> exception + int" where
  "py_int_of_float x = (case x of None \<Rightarrow> Inl OverflowError | Some v \<Rightarrow> Inr (py_int v))"

text \<open>
  \<open>int(x * n)\<close> and \<open>int(n * x)\<close> for a float \<open>x\<close> and an integer \<open>n\<close>: the integer is
  converted, the two doubles are multiplied, the product is truncated.
\<close>

definition int_of_product :: "real \<Rightarrow> int \<Rightarrow> exception + int" where
  "int_of_product x n =
     (case py_float_of_int n of
        Inl e \<Rightarrow> Inl e
      | Inr f \<Rightarrow> py_int_of_float (py_float_mul x f))"

text \<open>
  Modelled from the spec: \<open>packets.Beatgrid\<close> is imported (line 9) and not part of
  gui.py. Its parse result is read as \<open>beatgrid_data["beats"]\<close>, a sequence of entries
  read as \<open>beat["beat"]\<close> (beat in bar) and \<open>beat["time"]\<close> (milliseconds). The parser
  itself is a parameter of every operation that calls it: it returns the parsed
  structure or raises.
\<close>

record beatgrid_beat =
  beat :: int
  time :: int

record Beatgrid =
  beats :: "beatgrid_beat list"

type_synonym Beatgrid_parse = "bytes \<Rightarrow> exception + Beatgrid"

text \<open>
  Qt is a command sink: a pixmap is the size it was constructed with and the sequence of
  paint commands issued on it, each command carrying the pen or brush colour in force.
\<close>

datatype color = Qt_black | Qt_white | Qt_red | Qt_yellow | QColor int int int

datatype paint_op =
    fill color
  | drawLine int int int int color
  | fillRect int int int int color
  | drawRect int int int int color

record QPixmap =
  pm_width :: int
  pm_height :: int
  painted :: "paint_op list"

datatype log_record = log_info string | log_error string exception

subsection \<open>WaveformWidget\<close>

record WaveformWidget =
  waveform_data :: "bytes option"
  beatgrid_data :: "Beatgrid option"
  pixmap :: "QPixmap option"
  offset :: int
  position_marker :: real
  frames :: int
  position_marker_offset :: int
  logged :: "log_record list"
  update_calls :: nat

text \<open>The three attributes that \<open>__init__\<close> sets and nothing changes afterwards.\<close>

definition waveform_height :: int where
  "waveform_height = 75"

definition waveform_center :: int where
  "waveform_center = waveform_height div 2"

definition waveform_px_per_s :: int where
  "waveform_px_per_s = 150"

text \<open>\<open>self.startTimer(40)\<close>: the period of the refresh timer, in milliseconds.\<close>

definition timer_interval :: int where
  "timer_interval = 40"

text \<open>
  Lines 45 to 47: \<open>int(relative*self.frames)\<close>. When the expression raises, the exception
  leaves the method (line 46 has assigned \<open>position_marker\<close> by then); the state left
  behind is not followed further.
\<close>

definition setPositionMarkerOffset ::
  "WaveformWidget \<Rightarrow> real \<Rightarrow> exception + WaveformWidget" where
  "setPositionMarkerOffset s relative =
     (case int_of_product relative (frames s) of
        Inl e \<Rightarrow> Inl e
      | Inr n \<Rightarrow> Inr (s\<lparr>position_marker := relative, position_marker_offset := n\<rparr>))"

definition setFrameCount :: "WaveformWidget \<Rightarrow> int \<Rightarrow> exception + WaveformWidget" where
  "setFrameCount s fr = setPositionMarkerOffset (s\<lparr>frames := fr\<rparr>) (position_marker s)"

text \<open>
  The constructor: the attributes that do not exist before \<open>setFrameCount\<close> runs
  (\<open>frames\<close>, \<open>position_marker_offset\<close>) hold 0 until it assigns them.
  \<open>WaveformWidget_init\<close> is the widget it returns (lemma \<open>WaveformWidget_new_returns\<close>).
\<close>

definition WaveformWidget_new :: "exception + WaveformWidget" where
  "WaveformWidget_new =
     setFrameCount
       \<lparr>waveform_data = None, beatgrid_data = None, pixmap = None, offset = 0,
        position_marker = 0.5, frames = 0, position_marker_offset = 0,
        logged = [], update_calls = 0\<rparr>
       (waveform_px_per_s * 10)"

definition WaveformWidget_init :: WaveformWidget where
  "WaveformWidget_init =
     \<lparr>waveform_data = None, beatgrid_data = None, pixmap = None, offset = 0,
      position_marker = 0.5, frames = 1500, position_marker_offset = 750,
      logged = [], update_calls = 0\<rparr>"

text \<open>Truth value of \<open>self.waveform_data\<close>: \<open>None\<close> and the empty buffer are false.\<close>

definition has_data :: "bytes option \<Rightarrow> bool" where
  "has_data d = (case d of None \<Rightarrow> False | Some bs \<Rightarrow> bs \<noteq> [])"

text \<open>Lines 85 to 89: the bar of the sample at index \<open>data_x\<close>.\<close>

definition draw_sample :: "int \<Rightarrow> bytes \<Rightarrow> nat \<Rightarrow> paint_op" where
  "draw_sample pmo d data_x =
     (let draw_x = int data_x + pmo;
          height = uint (d ! data_x) AND 0x1f;
          whiteness = drop_bit 5 (uint (d ! data_x))
      in drawLine draw_x (waveform_center - height) draw_x (waveform_center + height)
           (QColor (36 * whiteness) (36 * whiteness) 255))"

text \<open>Lines 92 to 100: the two rectangles of one beat.\<close>

definition draw_beat :: "int \<Rightarrow> beatgrid_beat \<Rightarrow> paint_op list" where
  "draw_beat pmo b =
     (let brush = (if beat b = 1 then Qt_red else Qt_white);
          length = (if beat b = 1 then 8 else 5);
          draw_x = time b * waveform_px_per_s div 1000 + pmo
      in [fillRect (draw_x - 1) 0 4 length brush,
          fillRect (draw_x - 1) (waveform_height - length) 4 length brush])"

text \<open>
  Lines 83 to 100. The beat loop is nested in \<open>if self.waveform_data\<close>. A parsed
  \<open>Beatgrid\<close> container has entries and is true; \<open>None\<close> is false.
\<close>

definition draw_waveform :: "int \<Rightarrow> bytes \<Rightarrow> Beatgrid option \<Rightarrow> paint_op list" where
  "draw_waveform pmo d bg =
     (if d \<noteq> [] then
        map (draw_sample pmo d) [0..<length d] @
        (case bg of None \<Rightarrow> [] | Some g \<Rightarrow> concat (map (draw_beat pmo) (beats g)))
      else [])"

definition renderWaveformPixmap :: "WaveformWidget \<Rightarrow> exception + WaveformWidget" where
  "renderWaveformPixmap s =
     (case waveform_data s of
        None \<Rightarrow> Inl TypeError
      | Some d \<Rightarrow>
          let w = position_marker_offset s + int (length d) in
          Inr (s\<lparr>pixmap := Some
                    \<lparr>pm_width = w, pm_height = waveform_height,
                     painted =
                       [fill Qt_black,
                        drawLine 0 waveform_center w waveform_center Qt_white] @
                       draw_waveform (position_marker_offset s) d (beatgrid_data s)\<rparr>,
                 logged := logged s @
                   [log_info ''rendering waveform'', log_info ''rendering waveform done'']\<rparr>))"

definition setData :: "WaveformWidget \<Rightarrow> bytes \<Rightarrow> exception + WaveformWidget" where
  "setData s data =
     renderWaveformPixmap (s\<lparr>pixmap := None, waveform_data := Some (drop 20 data)\<rparr>)"

text \<open>
  Lines 32 to 39. The handler catches \<open>RangeError\<close> and \<open>FieldError\<close>; an exception of
  any other class leaves the method at the \<open>try\<close>.
\<close>

definition render_if_data :: "WaveformWidget \<Rightarrow> exception + WaveformWidget" where
  "render_if_data s = (if has_data (waveform_data s) then renderWaveformPixmap s else Inr s)"

definition setBeatgridData ::
  "Beatgrid_parse \<Rightarrow> WaveformWidget \<Rightarrow> bytes \<Rightarrow> exception + WaveformWidget" where
  "setBeatgridData parse s beatgrid_bytes =
     (case parse beatgrid_bytes of
        Inr g \<Rightarrow> render_if_data (s\<lparr>beatgrid_data := Some g\<rparr>)
      | Inl e \<Rightarrow>
          if e = RangeError \<or> e = FieldError then
            render_if_data
              (s\<lparr>logged := logged s @ [log_error ''Gui: failed to parse beatgrid data: %s'' e],
                 beatgrid_data := None\<rparr>)
          else Inl e)"

text \<open>Lines 104 to 108: \<open>self.update()\<close> is counted in \<open>update_calls\<close>.\<close>

definition timerEvent :: "WaveformWidget \<Rightarrow> WaveformWidget" where
  "timerEvent s =
     s\<lparr>offset := offset s + py_int (142 * 0.04), update_calls := update_calls s + 1\<rparr>"

text \<open>
  The entry points of the widget: the three setters that \<open>Gui.dbserver_callback\<close> and
  the containing shell call, and the timer. A state is reachable when the constructor
  followed by a sequence of entry-point calls that return normally produces it.
\<close>

datatype event =
    SetData bytes
  | SetBeatgridData bytes
  | SetFrameCount int
  | SetPositionMarkerOffset real
  | TimerEvent

fun step :: "Beatgrid_parse \<Rightarrow> WaveformWidget \<Rightarrow> event \<Rightarrow> exception + WaveformWidget" where
  "step parse s (SetData data) = setData s data"
| "step parse s (SetBeatgridData b) = setBeatgridData parse s b"
| "step parse s (SetFrameCount fr) = setFrameCount s fr"
| "step parse s (SetPositionMarkerOffset relative) = setPositionMarkerOffset s relative"
| "step parse s TimerEvent = Inr (timerEvent s)"

inductive reachable :: "Beatgrid_parse \<Rightarrow> WaveformWidget \<Rightarrow> bool" for parse where
  reachable_init: "reachable parse WaveformWidget_init"
| reachable_step: "reachable parse s \<Longrightarrow> step parse s e = Inr s' \<Longrightarrow> reachable parse s'"

text \<open>
  Observations on a composited pixmap. \<open>renderWaveformPixmap\<close> issues \<open>fillRect\<close> for
  beat ticks only and \<open>drawLine\<close> with a \<open>QColor\<close> pen for sample bars only.
\<close>

fun is_fillRect :: "paint_op \<Rightarrow> bool" where
  "is_fillRect (fillRect x y w h c) = True"
| "is_fillRect _ = False"

fun is_bar :: "paint_op \<Rightarrow> bool" where
  "is_bar (drawLine x1 y1 x2 y2 (QColor r g b)) = True"
| "is_bar _ = False"

definition ticks :: "QPixmap \<Rightarrow> paint_op list" where
  "ticks pm = filter is_fillRect (painted pm)"

definition bars :: "QPixmap \<Rightarrow> paint_op list" where
  "bars pm = filter is_bar (painted pm)"

text \<open>
  The image that lines 73 to 100 build from an offset, a sample sequence and a beat grid.
\<close>

definition composited :: "int \<Rightarrow> bytes \<Rightarrow> Beatgrid option \<Rightarrow> QPixmap" where
  "composited pmo d bg =
     \<lparr>pm_width = pmo + int (length d), pm_height = waveform_height,
      painted =
        [fill Qt_black,
         drawLine 0 waveform_center (pmo + int (length d)) waveform_center Qt_white] @
        draw_waveform pmo d bg\<rparr>"


text \<open>Every call of \<open>renderWaveformPixmap\<close> logs its first message once.\<close>

definition render_count :: "WaveformWidget \<Rightarrow> nat" where
  "render_count s = count_list (logged s) (log_info ''rendering waveform'')"

subsection \<open>PreviewWaveformWidget\<close>

record PreviewWaveformWidget =
  data :: "bytes option"
  position :: int
  preview_update_calls :: nat

definition PreviewWaveformWidget_init :: PreviewWaveformWidget where
  "PreviewWaveformWidget_init = \<lparr>data = None, position = 0, preview_update_calls = 0\<rparr>"

definition PreviewWaveformWidget_setData ::
  "PreviewWaveformWidget \<Rightarrow> bytes \<Rightarrow> PreviewWaveformWidget" where
  "PreviewWaveformWidget_setData s d =
     s\<lparr>data := Some d, preview_update_calls := preview_update_calls s + 1\<rparr>"

text \<open>Lines 132 to 136: \<open>int(400*relative)\<close>.\<close>

definition setProgress ::
  "PreviewWaveformWidget \<Rightarrow> real \<Rightarrow> exception + PreviewWaveformWidget" where
  "setProgress s relative =
     (case int_of_product relative 400 of
        Inl e \<Rightarrow> Inl e
      | Inr new_position \<Rightarrow>
          Inr (if new_position \<noteq> position s
               then s\<lparr>position := new_position,
                      preview_update_calls := preview_update_calls s + 1\<rparr>
               else s))"

text \<open>\<open>n\<close> calls of \<open>setProgress\<close> in a row with the same value.\<close>

fun repeat_setProgress ::
  "nat \<Rightarrow> PreviewWaveformWidget \<Rightarrow> real \<Rightarrow> exception + PreviewWaveformWidget" where
  "repeat_setProgress 0 s relative = Inr s"
| "repeat_setProgress (Suc n) s relative =
     (case setProgress s relative of
        Inl e \<Rightarrow> Inl e
      | Inr s' \<Rightarrow> repeat_setProgress n s' relative)"

text \<open>Lines 156 to 159: the bar of preview column \<open>x\<close>.\<close>

definition draw_preview_sample :: "bytes \<Rightarrow> nat \<Rightarrow> paint_op" where
  "draw_preview_sample d x =
     (let height = uint (d ! (2 * x));
          whiteness = uint (d ! (2 * x + 1)) + 1
      in drawLine (int x) 31 (int x) (31 - height)
           (QColor (36 * whiteness) (36 * whiteness) 255))"

definition drawPreviewWaveformPixmap :: "PreviewWaveformWidget \<Rightarrow> QPixmap" where
  "drawPreviewWaveformPixmap s =
     \<lparr>pm_width = 400, pm_height = 34,
      painted =
        [fill Qt_black] @
        (case data s of
           None \<Rightarrow> []
         | Some d \<Rightarrow>
             if d \<noteq> [] \<and> 400 * 2 \<le> length d
             then map (draw_preview_sample d) [0..<400]
             else []) @
        [drawLine 0 33 399 33 Qt_white]\<rparr>"

text \<open>
  Lines 138 to 146: the pixmap that \<open>paintEvent\<close> scales to the widget and draws at
  (0, 0). \<open>drawPreviewWaveformPixmap\<close> always returns a 400 by 34 pixmap, so the test
  \<open>if pixmap\<close> succeeds.
\<close>

definition PreviewWaveformWidget_paintEvent :: "PreviewWaveformWidget \<Rightarrow> QPixmap option" where
  "PreviewWaveformWidget_paintEvent s = Some (drawPreviewWaveformPixmap s)"

subsection \<open>BeatBarWidget\<close>

text \<open>
  The attribute \<open>self.beat\<close> is the field \<open>bar_beat\<close> here (\<open>beat\<close> is the key of a
  beat-grid entry above).
\<close>

record BeatBarWidget =
  bar_beat :: int
  bar_update_calls :: nat

definition BeatBarWidget_init :: BeatBarWidget where
  "BeatBarWidget_init = \<lparr>bar_beat = 0, bar_update_calls = 0\<rparr>"

definition setBeat :: "BeatBarWidget \<Rightarrow> int \<Rightarrow> BeatBarWidget" where
  "setBeat s b =
     (if b \<noteq> bar_beat s
      then s\<lparr>bar_beat := b, bar_update_calls := bar_update_calls s + 1\<rparr>
      else s)"

text \<open>Lines 185 to 188: box \<open>x\<close>, for a widget of the given width and height.\<close>

definition draw_box :: "int \<Rightarrow> int \<Rightarrow> BeatBarWidget \<Rightarrow> int \<Rightarrow> paint_op list" where
  "draw_box size_width size_height s x =
     (let box_gap = 6;
          box_width = (size_width - 1 - 3 * box_gap) div 4;
          box_height = size_height - 1;
          draw_x = x * (box_width + box_gap)
      in drawRect draw_x 0 box_width box_height Qt_yellow #
         (if x = bar_beat s - 1
          then [fillRect draw_x 0 box_width box_height Qt_yellow]
          else []))"

definition BeatBarWidget_paintEvent :: "int \<Rightarrow> int \<Rightarrow> BeatBarWidget \<Rightarrow> paint_op list" where
  "BeatBarWidget_paintEvent size_width size_height s =
     concat (map (draw_box size_width size_height s) [0, 1, 2, 3])"

section \<open>The specification's words\<close>

text \<open>
  The specification's WaveformSample and its decoder (sections 3 and 4.1): the first 20
  bytes are skipped and each remaining byte gives one sample.
\<close>

record WaveformSample =
  amplitude :: int
  colorLevel :: int

definition spec_decode_byte :: "byte \<Rightarrow> WaveformSample" where
  "spec_decode_byte b = \<lparr>amplitude = uint b AND 0x1F, colorLevel = drop_bit 5 (uint b)\<rparr>"

definition spec_decode :: "bytes \<Rightarrow> WaveformSample list" where
  "spec_decode buf = map spec_decode_byte (drop 20 buf)"

text \<open>
  Section 4.3, step 3: the bar of the sample at index \<open>i\<close>, centred on the axis at
  \<open>x = positionMarkerOffsetSamples + i\<close>, \<open>amplitude\<close> pixels above and below.
\<close>

definition spec_bar :: "int \<Rightarrow> nat \<Rightarrow> WaveformSample \<Rightarrow> paint_op" where
  "spec_bar pmo i smp =
     drawLine (pmo + int i) (37 - amplitude smp) (pmo + int i) (37 + amplitude smp)
       (QColor (36 * colorLevel smp) (36 * colorLevel smp) 255)"

text \<open>
  Section 4.3, step 4: the x-coordinate of a beat marker,
  \<open>floor(timeOffsetMs * 150 / 1000) + positionMarkerOffsetSamples\<close>.
\<close>

definition spec_beat_x :: "int \<Rightarrow> int \<Rightarrow> int" where
  "spec_beat_x pmo timeOffsetMs = \<lfloor>(of_int timeOffsetMs * 150 / 1000 :: real)\<rfloor> + pmo"

section \<open>Fixtures\<close>

text \<open>
  A stand-in for \<open>Beatgrid.parse\<close> in the concrete evaluations below: a buffer shorter
  than 20 bytes is truncated (\<open>FieldError\<close>), a buffer that starts with 255 raises an
  exception of another class, any other buffer parses to a two-beat grid.
\<close>

definition example_grid :: Beatgrid where
  "example_grid = \<lparr>beats = [\<lparr>beat = 1, time = 1000\<rparr>, \<lparr>beat = 2, time = 1500\<rparr>]\<rparr>"

definition example_parse :: Beatgrid_parse where
  "example_parse buf =
     (if length buf < 20 then Inl FieldError
      else if hd buf = 255 then Inl OtherException
      else Inr example_grid)"

text \<open>
  The widget after the beat grid of a 20-byte buffer and then a detail buffer of 21 bytes
  with the sample byte 255 have arrived.
\<close>

definition example_state :: WaveformWidget where
  "example_state =
     \<lparr>waveform_data = Some [255], beatgrid_data = Some example_grid,
      pixmap = Some
        \<lparr>pm_width = 751, pm_height = 75,
         painted = [fill Qt_black, drawLine 0 37 751 37 Qt_white,
                    drawLine 750 6 750 68 (QColor 252 252 255),
                    fillRect 899 0 4 8 Qt_red, fillRect 899 67 4 8 Qt_red,
                    fillRect 974 0 4 5 Qt_white, fillRect 974 70 4 5 Qt_white]\<rparr>,
      offset = 0, position_marker = 1 / 2, frames = 1500, position_marker_offset = 750,
      logged = [log_info ''rendering waveform'', log_info ''rendering waveform done''],
      update_calls = 0\<rparr>"

section \<open>Lemmas on the paint commands\<close>

lemma is_bar_draw_sample: "is_bar (draw_sample pmo d i)"
  by (simp add: draw_sample_def Let_def)

lemma not_fillRect_draw_sample: "\<not> is_fillRect (draw_sample pmo d i)"
  by (simp add: draw_sample_def Let_def)

lemma bars_draw_beats: "filter is_bar (concat (map (draw_beat pmo) bs)) = []"
  by (induction bs) (simp_all add: draw_beat_def Let_def)

lemma ticks_draw_beats:
  "filter is_fillRect (concat (map (draw_beat pmo) bs)) = concat (map (draw_beat pmo) bs)"
  by (induction bs) (simp_all add: draw_beat_def Let_def)

lemma filter_bars_samples:
  "filter is_bar (map (draw_sample pmo d) ns) = map (draw_sample pmo d) ns"
  by (induction ns) (simp_all add: is_bar_draw_sample)

lemma filter_ticks_samples:
  "filter is_fillRect (map (draw_sample pmo d) ns) = []"
  by (induction ns) (simp_all add: not_fillRect_draw_sample)

lemma bars_draw_waveform:
  "filter is_bar (draw_waveform pmo d bg) = map (draw_sample pmo d) [0..<length d]"
  by (cases bg) (simp_all add: draw_waveform_def filter_bars_samples bars_draw_beats)

lemma ticks_draw_waveform:
  "filter is_fillRect (draw_waveform pmo d bg) =
     (if d \<noteq> [] then (case bg of None \<Rightarrow> [] | Some g \<Rightarrow> concat (map (draw_beat pmo) (beats g)))
      else [])"
  by (cases bg) (simp_all add: draw_waveform_def filter_ticks_samples ticks_draw_beats)

text \<open>The source's bar is the specification's bar of the decoded sample.\<close>

lemma draw_sample_spec:
  "i < length d \<Longrightarrow> draw_sample pmo d i = spec_bar pmo i (spec_decode_byte (d ! i))"
  by (simp add: draw_sample_def spec_bar_def spec_decode_byte_def Let_def
      waveform_center_def waveform_height_def add.commute)

lemma samples_spec:
  "map (draw_sample pmo d) [0..<length d] =
     map2 (spec_bar pmo) [0..<length d] (map spec_decode_byte d)"
  by (rule nth_equalityI) (simp_all add: draw_sample_spec)

lemma amplitude_range:
  "0 \<le> amplitude (spec_decode_byte b) \<and> amplitude (spec_decode_byte b) \<le> 31"
  by (simp add: spec_decode_byte_def AND_upper2')

lemma colorLevel_range:
  "0 \<le> colorLevel (spec_decode_byte b) \<and> colorLevel (spec_decode_byte b) \<le> 7"
proof -
  have "0 \<le> uint b" and "uint b < 256"
    using uint_lt2p [of b] by simp_all
  then have "0 \<le> uint b div 32 \<and> uint b div 32 \<le> 7"
    by arith
  then show ?thesis
    by (simp add: spec_decode_byte_def drop_bit_eq_div)
qed

text \<open>\<open>setData\<close> never raises: the buffer it renders is the slice it has just stored.\<close>

lemma setData_result:
  "setData s buf = Inr (s\<lparr>pixmap := Some
       \<lparr>pm_width = position_marker_offset s + int (length (drop 20 buf)),
        pm_height = waveform_height,
        painted = [fill Qt_black,
                   drawLine 0 waveform_center
                     (position_marker_offset s + int (length (drop 20 buf))) waveform_center Qt_white] @
                  draw_waveform (position_marker_offset s) (drop 20 buf) (beatgrid_data s)\<rparr>,
     waveform_data := Some (drop 20 buf),
     logged := logged s @ [log_info ''rendering waveform'', log_info ''rendering waveform done'']\<rparr>)"
  by (simp add: setData_def renderWaveformPixmap_def Let_def)

text \<open>Floor division of integers is the floor of the real quotient.\<close>

lemma spec_beat_x_div: "spec_beat_x pmo t = t * 150 div 1000 + pmo"
proof -
  have "(of_int t * 150 / 1000 :: real) = of_int (t * 150) / of_int 1000"
    by simp
  then have "\<lfloor>(of_int t * 150 / 1000 :: real)\<rfloor> = t * 150 div 1000"
    by (simp only: floor_divide_of_int_eq)
  then show ?thesis
    by (simp add: spec_beat_x_def)
qed

lemma draw_beat_spec:
  "draw_beat pmo b =
     (if beat b = 1
      then [fillRect (spec_beat_x pmo (time b) - 1) 0 4 8 Qt_red,
            fillRect (spec_beat_x pmo (time b) - 1) (75 - 8) 4 8 Qt_red]
      else [fillRect (spec_beat_x pmo (time b) - 1) 0 4 5 Qt_white,
            fillRect (spec_beat_x pmo (time b) - 1) (75 - 5) 4 5 Qt_white])"
  by (simp add: draw_beat_def Let_def spec_beat_x_div waveform_px_per_s_def waveform_height_def)

section \<open>Detail waveform: decoding and compositing\<close>

text \<open>
  C1. For every buffer passed to \<open>WaveformWidget.setData\<close>, the call returns normally,
  the first 20 bytes are skipped, and the bars of the composited image are, in input
  order, the bars of the decoded samples: one per remaining byte \<open>b\<close>, with amplitude
  \<open>b & 0x1F\<close> in 0..31 and colour level \<open>b >> 5\<close> in 0..7. No byte value is rejected.
\<close>

theorem setData_decodes_every_byte:
  "\<exists>s' pm. setData s buf = Inr s' \<and> waveform_data s' = Some (drop 20 buf) \<and>
      pixmap s' = Some pm \<and>
      bars pm = map2 (spec_bar (position_marker_offset s))
                  [0..<length (spec_decode buf)] (spec_decode buf) \<and>
      length (spec_decode buf) = length buf - 20 \<and>
      (\<forall>smp \<in> set (spec_decode buf).
         0 \<le> amplitude smp \<and> amplitude smp \<le> 31 \<and> 0 \<le> colorLevel smp \<and> colorLevel smp \<le> 7)"
proof -
  let ?d = "drop 20 buf"
  have range: "\<forall>smp \<in> set (spec_decode buf).
         0 \<le> amplitude smp \<and> amplitude smp \<le> 31 \<and> 0 \<le> colorLevel smp \<and> colorLevel smp \<le> 7"
    using amplitude_range colorLevel_range by (auto simp: spec_decode_def)
  have "bars \<lparr>pm_width = position_marker_offset s + int (length ?d),
        pm_height = waveform_height,
        painted = [fill Qt_black,
                   drawLine 0 waveform_center
                     (position_marker_offset s + int (length ?d)) waveform_center Qt_white] @
                  draw_waveform (position_marker_offset s) ?d (beatgrid_data s)\<rparr>
     = map2 (spec_bar (position_marker_offset s))
                  [0..<length (spec_decode buf)] (spec_decode buf)"
    using samples_spec [of "position_marker_offset s" ?d]
    by (simp add: bars_def bars_draw_waveform spec_decode_def)
  with range show ?thesis
    by (simp add: setData_result spec_decode_def)
qed

theorem setData_decodes_every_byte_witness:
  "\<exists>s' pm. setData WaveformWidget_init
             [0,0,0,0,0, 0,0,0,0,0, 0,0,0,0,0, 0,0,0,0,0, 255, 37] = Inr s' \<and>
      waveform_data s' = Some [255, 37] \<and> pixmap s' = Some pm \<and>
      bars pm = [drawLine 750 6 750 68 (QColor 252 252 255),
                 drawLine 751 32 751 42 (QColor 36 36 255)]"
  using setData_decodes_every_byte
    [of WaveformWidget_init "[0,0,0,0,0, 0,0,0,0,0, 0,0,0,0,0, 0,0,0,0,0, 255, 37]"]
  by (simp add: spec_decode_def spec_decode_byte_def spec_bar_def WaveformWidget_init_def
      setFrameCount_def setPositionMarkerOffset_def py_int_def waveform_px_per_s_def
      drop_bit_eq_div)

text \<open>
  C10. For every buffer of at most 20 bytes, \<open>setData\<close> returns normally: the decoded
  sequence is empty and the composited image has width \<open>position_marker_offset\<close> and
  holds the black background and the white centre line only, whatever the beat grid.
\<close>

theorem setData_short_buffer:
  "length buf \<le> 20 \<Longrightarrow>
   setData s buf =
     Inr (s\<lparr>pixmap := Some \<lparr>pm_width = position_marker_offset s, pm_height = 75,
                             painted = [fill Qt_black,
                                        drawLine 0 37 (position_marker_offset s) 37 Qt_white]\<rparr>,
           waveform_data := Some [],
           logged := logged s @
             [log_info ''rendering waveform'', log_info ''rendering waveform done'']\<rparr>)"
  by (simp add: setData_result draw_waveform_def waveform_center_def waveform_height_def)

theorem setData_short_buffer_witness:
  "length [1, 2, 3 :: byte] \<le> 20 \<and>
   setData (WaveformWidget_init\<lparr>beatgrid_data := Some example_grid\<rparr>) [1, 2, 3] =
     Inr \<lparr>waveform_data = Some [], beatgrid_data = Some example_grid,
          pixmap = Some \<lparr>pm_width = 750, pm_height = 75,
                          painted = [fill Qt_black, drawLine 0 37 750 37 Qt_white]\<rparr>,
          offset = 0, position_marker = 1 / 2, frames = 1500, position_marker_offset = 750,
          logged = [log_info ''rendering waveform'', log_info ''rendering waveform done''],
          update_calls = 0\<rparr>"
  using setData_short_buffer
    [of "[1, 2, 3]" "WaveformWidget_init\<lparr>beatgrid_data := Some example_grid\<rparr>"]
  by (simp add: WaveformWidget_init_def
      setFrameCount_def setPositionMarkerOffset_def py_int_def waveform_px_per_s_def)

text \<open>
  C2, as the code has it. When a non-empty sample sequence is composited and a beat grid
  is present, every beat marker gives two rectangles 4 pixels wide, at the top edge and at
  the bottom edge, starting one pixel left of
  \<open>x = floor(timeOffsetMs * 150 / 1000) + positionMarkerOffsetSamples\<close> (columns
  \<open>x - 1\<close> to \<open>x + 2\<close>): red and 8 pixels long for a downbeat, white and 5 pixels long
  for any other beat. For 1000 ms and offset 0, \<open>x\<close> is 150.
\<close>

theorem beat_ticks_with_samples:
  "waveform_data s = Some d \<Longrightarrow> d \<noteq> [] \<Longrightarrow> beatgrid_data s = Some g \<Longrightarrow>
   \<exists>s' pm. renderWaveformPixmap s = Inr s' \<and> pixmap s' = Some pm \<and>
     ticks pm =
       concat (map (\<lambda>b. let x = spec_beat_x (position_marker_offset s) (time b);
                             len = (if beat b = 1 then 8 else 5);
                             col = (if beat b = 1 then Qt_red else Qt_white)
                         in [fillRect (x - 1) 0 4 len col, fillRect (x - 1) (75 - len) 4 len col])
                 (beats g)) \<and>
     spec_beat_x 0 1000 = 150"
proof -
  assume d: "waveform_data s = Some d" "d \<noteq> []" and g: "beatgrid_data s = Some g"
  have eq: "draw_beat (position_marker_offset s) =
      (\<lambda>b. let x = spec_beat_x (position_marker_offset s) (time b);
                             len = (if beat b = 1 then 8 else 5);
                             col = (if beat b = 1 then Qt_red else Qt_white)
                         in [fillRect (x - 1) 0 4 len col, fillRect (x - 1) (75 - len) 4 len col])"
    by (rule ext) (simp add: draw_beat_spec Let_def)
  have "spec_beat_x 0 1000 = 150"
    by (simp add: spec_beat_x_div)
  with d g eq show ?thesis
    by (simp add: renderWaveformPixmap_def Let_def ticks_def ticks_draw_waveform)
qed

theorem beat_ticks_with_samples_witness:
  "\<exists>s' pm.
     renderWaveformPixmap
       (WaveformWidget_init\<lparr>waveform_data := Some [255], beatgrid_data := Some example_grid\<rparr>)
       = Inr s' \<and>
     pixmap s' = Some pm \<and>
     ticks pm = [fillRect 899 0 4 8 Qt_red, fillRect 899 67 4 8 Qt_red,
                 fillRect 974 0 4 5 Qt_white, fillRect 974 70 4 5 Qt_white]"
  using beat_ticks_with_samples
    [of "WaveformWidget_init\<lparr>waveform_data := Some [255], beatgrid_data := Some example_grid\<rparr>"
        "[255]" example_grid]
  by (simp add: spec_beat_x_div example_grid_def WaveformWidget_init_def
      setFrameCount_def setPositionMarkerOffset_def py_int_def waveform_px_per_s_def)

text \<open>
  The statement without the restriction fails when the composited sample sequence is
  empty: the beat loop
  is nested in \<open>if self.waveform_data\<close>, so a beat grid that is present gives no tick.
  Here the grid is parsed first and an empty detail buffer arrives afterwards.
\<close>

theorem beat_ticks_counterexample:
  "setBeatgridData example_parse WaveformWidget_init
     [0,0,0,0,0, 0,0,0,0,0, 0,0,0,0,0, 0,0,0,0,0] =
     Inr (WaveformWidget_init\<lparr>beatgrid_data := Some example_grid\<rparr>) \<and>
   beats example_grid = [\<lparr>beat = 1, time = 1000\<rparr>, \<lparr>beat = 2, time = 1500\<rparr>] \<and>
   setData (WaveformWidget_init\<lparr>beatgrid_data := Some example_grid\<rparr>) [] =
     Inr \<lparr>waveform_data = Some [], beatgrid_data = Some example_grid,
          pixmap = Some \<lparr>pm_width = 750, pm_height = 75,
                          painted = [fill Qt_black, drawLine 0 37 750 37 Qt_white]\<rparr>,
          offset = 0, position_marker = 1 / 2, frames = 1500, position_marker_offset = 750,
          logged = [log_info ''rendering waveform'', log_info ''rendering waveform done''],
          update_calls = 0\<rparr> \<and>
   ticks \<lparr>pm_width = 750, pm_height = 75,
          painted = [fill Qt_black, drawLine 0 37 750 37 Qt_white]\<rparr> = []"
  by (simp add: setBeatgridData_def example_parse_def render_if_data_def has_data_def
      example_grid_def setData_result draw_waveform_def ticks_def
      WaveformWidget_init_def setFrameCount_def setPositionMarkerOffset_def py_int_def
      waveform_px_per_s_def waveform_center_def waveform_height_def)

section \<open>Truncation\<close>

lemma py_int_mono: "x \<le> y \<Longrightarrow> py_int x \<le> py_int y"
proof -
  assume xy: "x \<le> y"
  consider "0 \<le> x" | "x < 0" "0 \<le> y" | "y < 0" using xy by linarith
  then show ?thesis
  proof cases
    case 1
    with xy show ?thesis by (simp add: py_int_def floor_mono)
  next
    case 2
    then have "\<lceil>x\<rceil> \<le> 0" and "0 \<le> \<lfloor>y\<rfloor>" by (simp_all add: ceiling_le_zero)
    then have "\<lceil>x\<rceil> \<le> \<lfloor>y\<rfloor>" by (rule order_trans)
    with 2 show ?thesis by (simp add: py_int_def)
  next
    case 3
    with xy show ?thesis by (simp add: py_int_def ceiling_mono)
  qed
qed

lemma py_int_nonneg: "0 \<le> x \<Longrightarrow> py_int x = \<lfloor>x\<rfloor>"
  by (simp add: py_int_def)

section \<open>Rounding to a double\<close>

text \<open>Rounding to the nearest integer is within a half and monotone.\<close>

lemma round_half_even_lower: "m - 1 / 2 \<le> of_int (round_half_even m)"
  unfolding round_half_even_def Let_def by (simp; linarith)

lemma round_half_even_upper: "of_int (round_half_even m) \<le> m + 1 / 2"
  unfolding round_half_even_def Let_def by (simp; linarith)

lemma round_half_even_of_int: "round_half_even (of_int k) = k"
  by (simp add: round_half_even_def)

lemma round_half_even_mono: "m \<le> n \<Longrightarrow> round_half_even m \<le> round_half_even n"
proof (rule ccontr)
  assume mn: "m \<le> n" and "\<not> round_half_even m \<le> round_half_even n"
  then have gap: "round_half_even n + 1 \<le> round_half_even m"
    by simp
  have "m \<noteq> n"
    using gap by auto
  with mn have "m < n"
    by simp
  have "(of_int (round_half_even m) :: real) \<le> m + 1 / 2"
    by (rule round_half_even_upper)
  also have "\<dots> < n + 1 / 2"
    using \<open>m < n\<close> by simp
  also have "\<dots> \<le> of_int (round_half_even n) + 1"
    using round_half_even_lower [of n] by simp
  also have "\<dots> = of_int (round_half_even n + 1)"
    by simp
  also have "\<dots> \<le> of_int (round_half_even m)"
    using gap by (simp only: of_int_le_iff)
  finally show False
    by simp
qed

lemma floor_log2_iff:
  "0 < a \<Longrightarrow> \<lfloor>log 2 a\<rfloor> = k \<longleftrightarrow> 2 powi k \<le> a \<and> a < 2 powi (k + 1)"
proof -
  assume pos: "0 < a"
  have a: "(2::real) powr real_of_int k = 2 powi k"
    by (rule powr_real_of_int') simp_all
  have b: "(2::real) powr real_of_int (k + 1) = 2 powi (k + 1)"
    by (rule powr_real_of_int') simp_all
  have "\<lfloor>log 2 a\<rfloor> = k \<longleftrightarrow> 2 powr real_of_int k \<le> a \<and> a < 2 powr real_of_int (k + 1)"
    using pos by (rule floor_log_eq_powr_iff) simp
  then show ?thesis
    by (simp only: a b)
qed

lemma float_exponent_eq:
  "2 powi e \<le> \<bar>x\<bar> \<Longrightarrow> \<bar>x\<bar> < 2 powi (e + 1) \<Longrightarrow> float_exponent x = max e (- 1022)"
proof -
  assume lo: "2 powi e \<le> \<bar>x\<bar>" and hi: "\<bar>x\<bar> < 2 powi (e + 1)"
  have "(0::real) < 2 powi e"
    by (simp add: zero_less_power_int)
  with lo have "0 < \<bar>x\<bar>"
    by linarith
  with lo hi have "\<lfloor>log 2 \<bar>x\<bar>\<rfloor> = e"
    by (simp only: floor_log2_iff)
  then show ?thesis
    by (simp add: float_exponent_def)
qed

lemma float_exponent_upper: "x \<noteq> 0 \<Longrightarrow> \<bar>x\<bar> < 2 powi (float_exponent x + 1)"
proof -
  assume "x \<noteq> 0"
  then have pos: "0 < \<bar>x\<bar>" by simp
  have "\<bar>x\<bar> < 2 powi (\<lfloor>log 2 \<bar>x\<bar>\<rfloor> + 1)"
    using floor_log2_iff [OF pos, of "\<lfloor>log 2 \<bar>x\<bar>\<rfloor>"] by simp
  also have "\<dots> \<le> 2 powi (float_exponent x + 1)"
    by (rule power_int_increasing) (simp_all add: float_exponent_def)
  finally show ?thesis .
qed

lemma float_exponent_lower:
  "x \<noteq> 0 \<Longrightarrow> - 1022 < float_exponent x \<Longrightarrow> 2 powi (float_exponent x) \<le> \<bar>x\<bar>"
proof -
  assume "x \<noteq> 0" and big: "- 1022 < float_exponent x"
  then have pos: "0 < \<bar>x\<bar>" by simp
  from big have "float_exponent x = \<lfloor>log 2 \<bar>x\<bar>\<rfloor>"
    by (simp add: float_exponent_def max_def split: if_splits)
  then show ?thesis
    using floor_log2_iff [OF pos, of "\<lfloor>log 2 \<bar>x\<bar>\<rfloor>"] by simp
qed

lemma float_exponent_mono:
  "0 < \<bar>x\<bar> \<Longrightarrow> \<bar>x\<bar> \<le> \<bar>y\<bar> \<Longrightarrow> float_exponent x \<le> float_exponent y"
proof -
  assume "0 < \<bar>x\<bar>" and "\<bar>x\<bar> \<le> \<bar>y\<bar>"
  then have "log 2 \<bar>x\<bar> \<le> log 2 \<bar>y\<bar>"
    by (intro log_mono) simp_all
  then have "\<lfloor>log 2 \<bar>x\<bar>\<rfloor> \<le> \<lfloor>log 2 \<bar>y\<bar>\<rfloor>"
    by (rule floor_mono)
  then show ?thesis
    by (simp add: float_exponent_def)
qed

lemma float_ulp_pos: "0 < float_ulp x"
  by (simp add: float_ulp_def zero_less_power_int)

lemma float_ulp_times: "of_int (2 ^ 52) * float_ulp x = 2 powi (float_exponent x)"
  and float_ulp_times': "of_int (2 ^ 53) * float_ulp x = 2 powi (float_exponent x + 1)"
proof -
  have "(2::real) powi (52 + (float_exponent x - 52)) = 2 powi 52 * 2 powi (float_exponent x - 52)"
    by (rule power_int_add) simp
  then show "of_int (2 ^ 52) * float_ulp x = 2 powi (float_exponent x)"
    by (simp add: float_ulp_def)
  have "(2::real) powi (53 + (float_exponent x - 52)) = 2 powi 53 * 2 powi (float_exponent x - 52)"
    by (rule power_int_add) simp
  then show "of_int (2 ^ 53) * float_ulp x = 2 powi (float_exponent x + 1)"
    by (simp add: float_ulp_def add.commute)
qed

lemma round_to_double_zero: "round_to_double 0 = 0"
  by (simp add: round_to_double_def round_half_even_def)

lemma round_to_double_nonneg: "0 \<le> x \<Longrightarrow> 0 \<le> round_to_double x"
proof -
  assume "0 \<le> x"
  then have "0 \<le> x / float_ulp x"
    using float_ulp_pos [of x] by simp
  then have "round_half_even 0 \<le> round_half_even (x / float_ulp x)"
    by (rule round_half_even_mono)
  then have "0 \<le> round_half_even (x / float_ulp x)"
    using round_half_even_of_int [of 0] by simp
  then show ?thesis
    using float_ulp_pos [of x] by (simp add: round_to_double_def)
qed

lemma round_to_double_upper:
  "0 < x \<Longrightarrow> round_to_double x \<le> 2 powi (float_exponent x + 1)"
proof -
  assume "0 < x"
  then have "x < 2 powi (float_exponent x + 1)"
    using float_exponent_upper [of x] by simp
  then have "x < of_int (2 ^ 53) * float_ulp x"
    by (simp only: float_ulp_times')
  then have "x / float_ulp x \<le> of_int (2 ^ 53)"
    using float_ulp_pos [of x] by (simp add: pos_divide_le_eq)
  then have "round_half_even (x / float_ulp x) \<le> round_half_even (of_int (2 ^ 53))"
    by (rule round_half_even_mono)
  then have "round_half_even (x / float_ulp x) \<le> 2 ^ 53"
    by (simp only: round_half_even_of_int)
  then have "(of_int (round_half_even (x / float_ulp x)) :: real) \<le> of_int (2 ^ 53)"
    by (simp only: of_int_le_iff)
  then have "round_to_double x \<le> of_int (2 ^ 53) * float_ulp x"
    unfolding round_to_double_def using float_ulp_pos [of x]
    by (intro mult_right_mono) simp_all
  then show ?thesis
    by (simp only: float_ulp_times')
qed

lemma round_to_double_lower:
  "0 < x \<Longrightarrow> 2 powi (float_exponent x) \<le> x \<Longrightarrow> 2 powi (float_exponent x) \<le> round_to_double x"
proof -
  assume "0 < x" and "2 powi (float_exponent x) \<le> x"
  then have "of_int (2 ^ 52) * float_ulp x \<le> x"
    by (simp only: float_ulp_times)
  then have "of_int (2 ^ 52) \<le> x / float_ulp x"
    using float_ulp_pos [of x] by (simp add: pos_le_divide_eq)
  then have "round_half_even (of_int (2 ^ 52)) \<le> round_half_even (x / float_ulp x)"
    by (rule round_half_even_mono)
  then have "2 ^ 52 \<le> round_half_even (x / float_ulp x)"
    by (simp only: round_half_even_of_int)
  then have "(of_int (2 ^ 52) :: real) \<le> of_int (round_half_even (x / float_ulp x))"
    by (simp only: of_int_le_iff)
  then have "of_int (2 ^ 52) * float_ulp x \<le> round_to_double x"
    unfolding round_to_double_def using float_ulp_pos [of x]
    by (intro mult_right_mono) simp_all
  then show ?thesis
    by (simp only: float_ulp_times)
qed

lemma round_to_double_mono: "0 \<le> x \<Longrightarrow> x \<le> y \<Longrightarrow> round_to_double x \<le> round_to_double y"
proof -
  assume x0: "0 \<le> x" and xy: "x \<le> y"
  show ?thesis
  proof (cases "x = 0")
    case True
    with x0 xy show ?thesis
      by (simp add: round_to_double_zero round_to_double_nonneg)
  next
    case False
    with x0 xy have pos: "0 < x" "0 < y"
      by simp_all
    then have le: "float_exponent x \<le> float_exponent y"
      using xy by (intro float_exponent_mono) simp_all
    show ?thesis
    proof (cases "float_exponent x = float_exponent y")
      case True
      then have u: "float_ulp x = float_ulp y"
        by (simp add: float_ulp_def)
      have "x / float_ulp y \<le> y / float_ulp y"
        using xy float_ulp_pos [of y] by (simp add: divide_right_mono)
      then have "round_half_even (x / float_ulp y) \<le> round_half_even (y / float_ulp y)"
        by (rule round_half_even_mono)
      then have "(of_int (round_half_even (x / float_ulp y)) :: real)
          \<le> of_int (round_half_even (y / float_ulp y))"
        by (simp only: of_int_le_iff)
      then show ?thesis
        unfolding round_to_double_def u using float_ulp_pos [of y]
        by (intro mult_right_mono) simp_all
    next
      case False
      with le have lt: "float_exponent x + 1 \<le> float_exponent y"
        by simp
      have "- 1022 \<le> float_exponent x"
        by (simp add: float_exponent_def)
      with lt have big: "- 1022 < float_exponent y"
        by simp
      have "round_to_double x \<le> 2 powi (float_exponent x + 1)"
        using pos(1) by (rule round_to_double_upper)
      also have "\<dots> \<le> 2 powi (float_exponent y)"
        using lt by (intro power_int_increasing) simp_all
      also have "\<dots> \<le> round_to_double y"
        using pos(2) big float_exponent_lower [of y]
        by (intro round_to_double_lower) simp_all
      finally show ?thesis .
    qed
  qed
qed

lemma round_to_double_eval:
  "2 powi e \<le> \<bar>x\<bar> \<Longrightarrow> \<bar>x\<bar> < 2 powi (e + 1) \<Longrightarrow> - 1022 \<le> e \<Longrightarrow>
   round_to_double x = of_int (round_half_even (x / 2 powi (e - 52))) * 2 powi (e - 52)"
  by (simp add: round_to_double_def float_ulp_def float_exponent_eq)

text \<open>Doubles that the evaluations below meet, and the integer product in range.\<close>

lemma round_to_double_2_53: "round_to_double (2 ^ 53) = 2 ^ 53"
  by (simp add: round_to_double_eval [of 53] round_half_even_def)

lemma round_to_double_400: "round_to_double 400 = 400"
  by (simp add: round_to_double_eval [of 8] round_half_even_def)

lemma int_of_product_value:
  "int_of_product x n = Inr k \<Longrightarrow> k = py_int (round_to_double (x * round_to_double (of_int n)))"
  by (auto simp: int_of_product_def py_float_of_int_def py_float_mul_def py_int_of_float_def
      split: if_splits)

lemma int_of_product_in_range:
  assumes "0 \<le> x" "x \<le> 1" "0 \<le> n" "n \<le> 2 ^ 53"
  shows "int_of_product x n = Inr (py_int (round_to_double (x * round_to_double (of_int n))))"
proof -
  let ?f = "round_to_double (of_int n)"
  have big: "(2::real) ^ 53 < 2 powi 1024"
    by simp
  have f0: "0 \<le> ?f"
    using assms(3) by (intro round_to_double_nonneg) simp
  have "?f \<le> round_to_double (2 ^ 53)"
    using assms(3,4) by (intro round_to_double_mono) simp_all
  then have f53: "?f \<le> 2 ^ 53"
    by (simp only: round_to_double_2_53)
  have nf: "\<not> float_overflow (of_int n)"
    using f0 f53 big by (simp add: float_overflow_def)
  have p0: "0 \<le> x * ?f"
    using assms(1) f0 by simp
  have "x * ?f \<le> 1 * ?f"
    using assms(2) f0 by (intro mult_right_mono)
  with f53 have p53: "x * ?f \<le> 2 ^ 53"
    by simp
  have r0: "0 \<le> round_to_double (x * ?f)"
    using p0 by (rule round_to_double_nonneg)
  have "round_to_double (x * ?f) \<le> round_to_double (2 ^ 53)"
    using p0 p53 by (intro round_to_double_mono)
  then have "round_to_double (x * ?f) \<le> 2 ^ 53"
    by (simp only: round_to_double_2_53)
  with r0 big have np: "\<not> float_overflow (x * ?f)"
    by (simp add: float_overflow_def)
  from nf np show ?thesis
    by (simp add: int_of_product_def py_float_of_int_def py_float_mul_def py_int_of_float_def)
qed

section \<open>Refresh timer\<close>

text \<open>
  C6, as the code has it. On every timer tick (the timer is started with a period of 40 ms)
  the scroll offset advances by exactly \<open>int(142 * 0.04)\<close>, which truncates 5.68 to 5,
  and one redraw is requested. The distance of 5.68 from the nearest integers is far
  larger than the rounding error of the float product, so the constant is 5 in floating
  point as well.
\<close>

theorem timerEvent_advance:
  "timerEvent s = s\<lparr>offset := offset s + 5, update_calls := Suc (update_calls s)\<rparr> \<and>
   py_int (142 * (of_int timer_interval / 1000)) = 5"
  by (simp add: timerEvent_def py_int_def timer_interval_def)

theorem timerEvent_advance_witness:
  "timerEvent WaveformWidget_init =
     WaveformWidget_init\<lparr>offset := 5, update_calls := 1\<rparr>"
proof -
  have "offset WaveformWidget_init = 0" and "update_calls WaveformWidget_init = 0"
    by (simp_all add: WaveformWidget_init_def setFrameCount_def setPositionMarkerOffset_def)
  then show ?thesis
    using timerEvent_advance [of WaveformWidget_init] by simp
qed

text \<open>
  The specification states an advance of \<open>round(142 * 0.04)\<close>, which is 6: the first
  tick after construction leaves the offset at 5.
\<close>

theorem timerEvent_advance_counterexample:
  "offset (timerEvent WaveformWidget_init) = 5 \<and>
   offset WaveformWidget_init + round (142 * 0.04 :: real) = 6 \<and>
   offset (timerEvent WaveformWidget_init) \<noteq> offset WaveformWidget_init + round (142 * 0.04 :: real)"
  by (simp add: timerEvent_def py_int_def round_def WaveformWidget_init_def setFrameCount_def setPositionMarkerOffset_def)

text \<open>
  The same constant in double arithmetic: the literal 0.04 and the product are rounded,
  the product being just below 5.68.
\<close>

lemma timer_constant_double:
  "round_to_double (4 / 100) = 5764607523034235 / 2 ^ 57 \<and>
   py_float_mul 142 (round_to_double (4 / 100)) = Some (6395111470866104 / 2 ^ 50) \<and>
   py_int_of_float (py_float_mul 142 (round_to_double (4 / 100))) = Inr 5"
proof -
  have a: "round_to_double (4 / 100) = 5764607523034235 / 2 ^ 57"
    by (simp add: round_to_double_eval [of "- 5"] round_half_even_def)
  have b: "round_to_double (142 * (5764607523034235 / 2 ^ 57)) = 6395111470866104 / 2 ^ 50"
    by (simp add: round_to_double_eval [of 2] round_half_even_def)
  have c: "py_float_mul 142 (5764607523034235 / 2 ^ 57) = Some (6395111470866104 / 2 ^ 50)"
    unfolding py_float_mul_def float_overflow_def b by simp
  show ?thesis
    unfolding a c by (simp add: py_int_of_float_def py_int_def)
qed

section \<open>Position marker\<close>

text \<open>The constructor returns \<open>WaveformWidget_init\<close>: 0.5 * 1500 is 750 exactly.\<close>

lemma WaveformWidget_new_returns: "WaveformWidget_new = Inr WaveformWidget_init"
  by (simp add: WaveformWidget_new_def WaveformWidget_init_def setFrameCount_def
      setPositionMarkerOffset_def waveform_px_per_s_def int_of_product_def py_float_of_int_def
      py_float_mul_def py_int_of_float_def float_overflow_def py_int_def
      round_to_double_eval [of 10] round_to_double_eval [of 9] round_half_even_def)

lemma setPositionMarkerOffset_cases:
  "setPositionMarkerOffset s relative = Inr s' \<Longrightarrow>
   \<exists>n. int_of_product relative (frames s) = Inr n \<and>
       s' = s\<lparr>position_marker := relative, position_marker_offset := n\<rparr>"
  by (auto simp: setPositionMarkerOffset_def split: sum.splits)

lemma setFrameCount_cases:
  "setFrameCount s fr = Inr s' \<Longrightarrow>
   \<exists>n. int_of_product (position_marker s) fr = Inr n \<and>
       s' = s\<lparr>frames := fr, position_marker_offset := n\<rparr>"
  by (auto simp: setFrameCount_def setPositionMarkerOffset_def split: sum.splits)

text \<open>No entry point but the two setters touches the three attributes.\<close>

lemma step_keeps_marker:
  "step parse s e = Inr s' \<Longrightarrow>
   int_of_product (position_marker s) (frames s) = Inr (position_marker_offset s) \<Longrightarrow>
   int_of_product (position_marker s') (frames s') = Inr (position_marker_offset s')"
  by (cases e)
     (auto simp: setData_result setBeatgridData_def render_if_data_def renderWaveformPixmap_def
        Let_def timerEvent_def
        dest!: setFrameCount_cases setPositionMarkerOffset_cases
        split: sum.splits if_splits option.splits)

text \<open>
  C5, as the code has it. In every reachable state \<open>position_marker_offset\<close> equals
  \<open>int(position_marker * frames)\<close>: the frame count converted to a double, the product of
  the two doubles rounded to a double, the result truncated towards zero. Both
  \<open>setFrameCount\<close> and \<open>setPositionMarkerOffset\<close> recompute it from the new value, and
  they return normally for a marker in [0, 1] and a frame count in 0..2^53.
\<close>

theorem position_marker_offset_derived:
  "reachable parse s \<Longrightarrow>
   int_of_product (position_marker s) (frames s) = Inr (position_marker_offset s) \<and>
   position_marker_offset s =
     py_int (round_to_double (position_marker s * round_to_double (of_int (frames s)))) \<and>
   (setFrameCount s fr = Inr s' \<longrightarrow>
      s' = s\<lparr>frames := fr,
             position_marker_offset :=
               py_int (round_to_double (position_marker s * round_to_double (of_int fr)))\<rparr>) \<and>
   (setPositionMarkerOffset s relative = Inr s'' \<longrightarrow>
      s'' = s\<lparr>position_marker := relative,
              position_marker_offset :=
                py_int (round_to_double (relative * round_to_double (of_int (frames s))))\<rparr>) \<and>
   (0 \<le> position_marker s \<and> position_marker s \<le> 1 \<and> 0 \<le> fr \<and> fr \<le> 2 ^ 53 \<longrightarrow>
      (\<exists>t. setFrameCount s fr = Inr t)) \<and>
   (0 \<le> relative \<and> relative \<le> 1 \<and> 0 \<le> frames s \<and> frames s \<le> 2 ^ 53 \<longrightarrow>
      (\<exists>t. setPositionMarkerOffset s relative = Inr t))"
proof -
  assume "reachable parse s"
  then have inv: "int_of_product (position_marker s) (frames s) = Inr (position_marker_offset s)"
  proof (induction rule: reachable.induct)
    case reachable_init
    show ?case
      by (simp add: WaveformWidget_init_def int_of_product_def py_float_of_int_def
          py_float_mul_def py_int_of_float_def float_overflow_def py_int_def
          round_to_double_eval [of 10] round_to_double_eval [of 9] round_half_even_def)
  next
    case (reachable_step s e s')
    then show ?case
      by (simp add: step_keeps_marker)
  qed
  have val: "position_marker_offset s =
     py_int (round_to_double (position_marker s * round_to_double (of_int (frames s))))"
    using inv by (rule int_of_product_value)
  have fc: "setFrameCount s fr = Inr s' \<longrightarrow>
      s' = s\<lparr>frames := fr,
             position_marker_offset :=
               py_int (round_to_double (position_marker s * round_to_double (of_int fr)))\<rparr>"
    by (auto dest!: setFrameCount_cases dest: int_of_product_value)
  have pm: "setPositionMarkerOffset s relative = Inr s'' \<longrightarrow>
      s'' = s\<lparr>position_marker := relative,
              position_marker_offset :=
                py_int (round_to_double (relative * round_to_double (of_int (frames s))))\<rparr>"
    by (auto dest!: setPositionMarkerOffset_cases dest: int_of_product_value)
  have fc_ok: "0 \<le> position_marker s \<and> position_marker s \<le> 1 \<and> 0 \<le> fr \<and> fr \<le> 2 ^ 53 \<longrightarrow>
      (\<exists>t. setFrameCount s fr = Inr t)"
    by (simp add: setFrameCount_def setPositionMarkerOffset_def int_of_product_in_range)
  have pm_ok: "0 \<le> relative \<and> relative \<le> 1 \<and> 0 \<le> frames s \<and> frames s \<le> 2 ^ 53 \<longrightarrow>
      (\<exists>t. setPositionMarkerOffset s relative = Inr t)"
    by (simp add: setPositionMarkerOffset_def int_of_product_in_range)
  from inv val fc pm fc_ok pm_ok show ?thesis
    by blast
qed

text \<open>
  At the double nearest to 0.7, which is 3152519739159347 / 2^52, and 1500 frames the
  exact product lies below 1050 and the rounded product is 1050.
\<close>

theorem position_marker_offset_derived_witness:
  "setPositionMarkerOffset WaveformWidget_init (3152519739159347 / 2 ^ 52) =
     Inr (WaveformWidget_init
           \<lparr>position_marker := 3152519739159347 / 2 ^ 52, position_marker_offset := 1050\<rparr>) \<and>
   setFrameCount WaveformWidget_init 100 =
     Inr (WaveformWidget_init\<lparr>frames := 100, position_marker_offset := 50\<rparr>)"
proof -
  have a: "setPositionMarkerOffset WaveformWidget_init (3152519739159347 / 2 ^ 52) =
     Inr (WaveformWidget_init
           \<lparr>position_marker := 3152519739159347 / 2 ^ 52, position_marker_offset := 1050\<rparr>)"
    by (simp add: WaveformWidget_init_def setPositionMarkerOffset_def int_of_product_def
        py_float_of_int_def py_float_mul_def py_int_of_float_def float_overflow_def py_int_def
        round_to_double_eval [of 10] round_half_even_def)
  have b: "setFrameCount WaveformWidget_init 100 =
     Inr (WaveformWidget_init\<lparr>frames := 100, position_marker_offset := 50\<rparr>)"
    by (simp add: WaveformWidget_init_def setFrameCount_def setPositionMarkerOffset_def
        int_of_product_def py_float_of_int_def py_float_mul_def py_int_of_float_def
        float_overflow_def py_int_def round_to_double_eval [of 6] round_to_double_eval [of 5]
        round_half_even_def)
  from position_marker_offset_derived [OF reachable_init [of example_parse], of 100
        "WaveformWidget_init\<lparr>frames := 100, position_marker_offset := 50\<rparr>"
        "3152519739159347 / 2 ^ 52"
        "WaveformWidget_init
           \<lparr>position_marker := 3152519739159347 / 2 ^ 52, position_marker_offset := 1050\<rparr>"]
    a b
  show ?thesis
    by blast
qed

text \<open>
  The specification states \<open>round\<close>. With the default 1500 frames and the marker at 5/16 the
  product is 468.75 (both factors and the product are doubles): the code stores 468,
  rounding gives 469.
\<close>

theorem position_marker_offset_counterexample:
  "setPositionMarkerOffset WaveformWidget_init (5 / 16) =
     Inr (WaveformWidget_init\<lparr>position_marker := 5 / 16, position_marker_offset := 468\<rparr>) \<and>
   frames WaveformWidget_init = 1500 \<and>
   round (5 / 16 * 1500 :: real) = 469"
  by (simp add: WaveformWidget_init_def setPositionMarkerOffset_def int_of_product_def
      py_float_of_int_def py_float_mul_def py_int_of_float_def float_overflow_def py_int_def
      round_to_double_eval [of 10] round_to_double_eval [of 8] round_half_even_def round_def)

section \<open>Preview strip\<close>

lemma setProgress_cases:
  "setProgress s p = Inr s' \<Longrightarrow>
   \<exists>k. int_of_product p 400 = Inr k \<and> position s' = k \<and>
       s' = (if k \<noteq> position s
             then s\<lparr>position := k, preview_update_calls := preview_update_calls s + 1\<rparr>
             else s)"
  by (auto simp: setProgress_def split: sum.splits if_splits)

lemma setProgress_position:
  "setProgress s p = Inr s' \<Longrightarrow> position s' = py_int (round_to_double (400 * p))"
proof -
  assume "setProgress s p = Inr s'"
  then obtain k where k: "int_of_product p 400 = Inr k" "position s' = k"
    by (auto dest!: setProgress_cases)
  from int_of_product_value [OF k(1)] k(2) show ?thesis
    by (simp add: round_to_double_400 mult.commute)
qed

lemma setProgress_returns: "0 \<le> p \<Longrightarrow> p \<le> 1 \<Longrightarrow> \<exists>s'. setProgress s p = Inr s'"
  by (simp add: setProgress_def int_of_product_in_range)

lemma setProgress_updates:
  "setProgress s p = Inr s' \<Longrightarrow> preview_update_calls s' \<le> preview_update_calls s + 1"
  by (auto simp: setProgress_def split: sum.splits if_splits)

lemma setProgress_again: "setProgress s p = Inr s' \<Longrightarrow> setProgress s' p = Inr s'"
  by (auto simp: setProgress_def split: sum.splits if_splits)

lemma repeat_setProgress_fixed:
  "setProgress s p = Inr s \<Longrightarrow> repeat_setProgress n s p = Inr s"
  by (induction n) simp_all

lemma preview_bars:
  "filter is_bar (map (draw_preview_sample d) ns) = map (draw_preview_sample d) ns"
  by (induction ns) (simp_all add: draw_preview_sample_def Let_def)

text \<open>
  C7, as the code has it. For every relative progress \<open>p\<close> in [0, 1],
  \<open>setProgress(p)\<close> returns normally and caches the marker position \<open>int(400 * p)\<close>, the
  double product truncated; it requests at most one redraw, and any number of further calls
  with the same value return the same state, so they request none; and a call with a
  larger value never moves the marker left.
\<close>

theorem setProgress_marker:
  "0 \<le> p \<Longrightarrow> p \<le> 1 \<Longrightarrow>
   \<exists>s'. setProgress s p = Inr s' \<and>
     position s' = py_int (round_to_double (400 * p)) \<and>
     position s' = \<lfloor>round_to_double (400 * p)\<rfloor> \<and>
     preview_update_calls s' \<le> preview_update_calls s + 1 \<and>
     repeat_setProgress n s' p = Inr s' \<and>
     (p < q \<longrightarrow> setProgress t q = Inr t' \<longrightarrow> position s' \<le> position t')"
proof -
  assume p: "0 \<le> p" "p \<le> 1"
  then obtain s' where s': "setProgress s p = Inr s'"
    using setProgress_returns by blast
  have pos: "position s' = py_int (round_to_double (400 * p))"
    using s' by (rule setProgress_position)
  have "0 \<le> round_to_double (400 * p)"
    using p(1) by (intro round_to_double_nonneg) simp
  with pos have fl: "position s' = \<lfloor>round_to_double (400 * p)\<rfloor>"
    by (simp add: py_int_nonneg)
  have upd: "preview_update_calls s' \<le> preview_update_calls s + 1"
    using s' by (rule setProgress_updates)
  have rep: "repeat_setProgress n s' p = Inr s'"
    using s' by (intro repeat_setProgress_fixed setProgress_again)
  have mono: "p < q \<longrightarrow> setProgress t q = Inr t' \<longrightarrow> position s' \<le> position t'"
  proof (intro impI)
    assume "p < q" and t': "setProgress t q = Inr t'"
    with p(1) have "round_to_double (400 * p) \<le> round_to_double (400 * q)"
      by (intro round_to_double_mono) simp_all
    then have "py_int (round_to_double (400 * p)) \<le> py_int (round_to_double (400 * q))"
      by (rule py_int_mono)
    with pos setProgress_position [OF t'] show "position s' \<le> position t'"
      by simp
  qed
  from s' pos fl upd rep mono show ?thesis
    by blast
qed

text \<open>
  At the double nearest to 0.7 the exact product \<open>400 * p\<close> lies below 280 and the rounded
  product is 280: the marker is at 280. Two more calls change nothing, and 0.75 moves the
  marker right, to 300.
\<close>

theorem setProgress_marker_witness:
  "setProgress PreviewWaveformWidget_init (3152519739159347 / 2 ^ 52) =
     Inr (PreviewWaveformWidget_init\<lparr>position := 280, preview_update_calls := 1\<rparr>) \<and>
   repeat_setProgress (Suc (Suc 0))
     (PreviewWaveformWidget_init\<lparr>position := 280, preview_update_calls := 1\<rparr>)
     (3152519739159347 / 2 ^ 52) =
     Inr (PreviewWaveformWidget_init\<lparr>position := 280, preview_update_calls := 1\<rparr>) \<and>
   setProgress (PreviewWaveformWidget_init\<lparr>position := 280, preview_update_calls := 1\<rparr>) (3 / 4) =
     Inr (PreviewWaveformWidget_init\<lparr>position := 300, preview_update_calls := 2\<rparr>)"
proof -
  have a: "setProgress PreviewWaveformWidget_init (3152519739159347 / 2 ^ 52) =
     Inr (PreviewWaveformWidget_init\<lparr>position := 280, preview_update_calls := 1\<rparr>)"
    by (simp add: PreviewWaveformWidget_init_def setProgress_def int_of_product_def
        py_float_of_int_def py_float_mul_def py_int_of_float_def float_overflow_def py_int_def
        round_to_double_eval [of 8] round_half_even_def)
  have b: "repeat_setProgress (Suc (Suc 0))
     (PreviewWaveformWidget_init\<lparr>position := 280, preview_update_calls := 1\<rparr>)
     (3152519739159347 / 2 ^ 52) =
     Inr (PreviewWaveformWidget_init\<lparr>position := 280, preview_update_calls := 1\<rparr>)"
    by (simp add: PreviewWaveformWidget_init_def setProgress_def int_of_product_def
        py_float_of_int_def py_float_mul_def py_int_of_float_def float_overflow_def py_int_def
        round_to_double_eval [of 8] round_half_even_def)
  have c: "setProgress (PreviewWaveformWidget_init\<lparr>position := 280, preview_update_calls := 1\<rparr>)
       (3 / 4) =
     Inr (PreviewWaveformWidget_init\<lparr>position := 300, preview_update_calls := 2\<rparr>)"
    by (simp add: PreviewWaveformWidget_init_def setProgress_def int_of_product_def
        py_float_of_int_def py_float_mul_def py_int_of_float_def float_overflow_def py_int_def
        round_to_double_eval [of 8] round_half_even_def)
  from setProgress_marker [of "3152519739159347 / 2 ^ 52" PreviewWaveformWidget_init
      "Suc (Suc 0)" "3 / 4"
      "PreviewWaveformWidget_init\<lparr>position := 280, preview_update_calls := 1\<rparr>"
      "PreviewWaveformWidget_init\<lparr>position := 300, preview_update_calls := 2\<rparr>"]
    a b c
  show ?thesis
    by blast
qed

text \<open>
  The specification states \<open>round(400 * p)\<close>. At \<open>p = 1/256\<close> the product is 1.5625 (a
  double): the code caches 1, rounding gives 2.
\<close>

theorem setProgress_marker_counterexample:
  "setProgress PreviewWaveformWidget_init (1 / 256) =
     Inr (PreviewWaveformWidget_init\<lparr>position := 1, preview_update_calls := 1\<rparr>) \<and>
   round (400 * (1 / 256) :: real) = 2"
  by (simp add: PreviewWaveformWidget_init_def setProgress_def int_of_product_def
      py_float_of_int_def py_float_mul_def py_int_of_float_def float_overflow_def py_int_def
      round_to_double_eval [of 8] round_to_double_eval [of 0] round_half_even_def round_def)

text \<open>
  C4, as the code has it. For a preview buffer shorter than 800 bytes no bar is drawn, and
  the pixmap still gets its black background and the white baseline at y = 33. For a
  buffer of exactly 800 bytes exactly 400 bars are drawn between the two, bar \<open>x\<close> from
  y = 31 up by the height byte \<open>data[2x]\<close>, coloured with \<open>data[2x+1] + 1\<close>.
\<close>

theorem preview_guard:
  "(length d < 800 \<longrightarrow>
      painted (drawPreviewWaveformPixmap (PreviewWaveformWidget_setData s d)) =
        [fill Qt_black, drawLine 0 33 399 33 Qt_white]) \<and>
   (length d = 800 \<longrightarrow>
      painted (drawPreviewWaveformPixmap (PreviewWaveformWidget_setData s d)) =
        fill Qt_black #
        map (\<lambda>x. drawLine (int x) 31 (int x) (31 - uint (d ! (2 * x)))
                    (QColor (36 * (uint (d ! (2 * x + 1)) + 1))
                            (36 * (uint (d ! (2 * x + 1)) + 1)) 255)) [0..<400] @
        [drawLine 0 33 399 33 Qt_white] \<and>
      length (bars (drawPreviewWaveformPixmap (PreviewWaveformWidget_setData s d))) = 400)"
proof -
  have eq: "draw_preview_sample d =
      (\<lambda>x. drawLine (int x) 31 (int x) (31 - uint (d ! (2 * x)))
                    (QColor (36 * (uint (d ! (2 * x + 1)) + 1))
                            (36 * (uint (d ! (2 * x + 1)) + 1)) 255))"
    by (rule ext) (simp add: draw_preview_sample_def Let_def)
  have short: "length d < 800 \<longrightarrow>
      painted (drawPreviewWaveformPixmap (PreviewWaveformWidget_setData s d)) =
        [fill Qt_black, drawLine 0 33 399 33 Qt_white]"
    by (simp add: drawPreviewWaveformPixmap_def PreviewWaveformWidget_setData_def)
  have full: "length d = 800 \<longrightarrow>
      painted (drawPreviewWaveformPixmap (PreviewWaveformWidget_setData s d)) =
        fill Qt_black # map (draw_preview_sample d) [0..<400] @ [drawLine 0 33 399 33 Qt_white]"
    by (auto simp: drawPreviewWaveformPixmap_def PreviewWaveformWidget_setData_def)
  have count: "length d = 800 \<longrightarrow>
      length (bars (drawPreviewWaveformPixmap (PreviewWaveformWidget_setData s d))) = 400"
    using full by (simp add: bars_def preview_bars)
  from short full count show ?thesis
    unfolding eq by blast
qed

theorem preview_guard_witness:
  "painted (drawPreviewWaveformPixmap
      (PreviewWaveformWidget_setData PreviewWaveformWidget_init (replicate 800 3))) =
     fill Qt_black #
     map (\<lambda>x. drawLine (int x) 31 (int x) 28 (QColor 144 144 255)) [0..<400] @
     [drawLine 0 33 399 33 Qt_white] \<and>
   length (bars (drawPreviewWaveformPixmap
      (PreviewWaveformWidget_setData PreviewWaveformWidget_init (replicate 800 3)))) = 400 \<and>
   painted (drawPreviewWaveformPixmap
      (PreviewWaveformWidget_setData PreviewWaveformWidget_init [7, 7, 7])) =
     [fill Qt_black, drawLine 0 33 399 33 Qt_white]"
  using preview_guard [of "replicate 800 3" PreviewWaveformWidget_init]
    preview_guard [of "[7, 7, 7]" PreviewWaveformWidget_init]
  by simp

text \<open>
  The specification states that a short buffer produces no visual output. With 799 bytes
  \<open>paintEvent\<close> still draws a pixmap, filled black and carrying the white baseline.
\<close>

theorem preview_guard_counterexample:
  "length (replicate 799 (0 :: byte)) = 799 \<and>
   PreviewWaveformWidget_paintEvent
      (PreviewWaveformWidget_setData PreviewWaveformWidget_init (replicate 799 0)) =
     Some \<lparr>pm_width = 400, pm_height = 34,
           painted = [fill Qt_black, drawLine 0 33 399 33 Qt_white]\<rparr> \<and>
   painted (drawPreviewWaveformPixmap
      (PreviewWaveformWidget_setData PreviewWaveformWidget_init (replicate 799 0))) \<noteq> []"
  by (simp add: PreviewWaveformWidget_paintEvent_def drawPreviewWaveformPixmap_def
      PreviewWaveformWidget_setData_def)

section \<open>Beat bar\<close>

lemma bar_beat_setBeat: "bar_beat (setBeat s b) = b"
  by (simp add: setBeat_def)

text \<open>
  C8. After \<open>setBeat(b)\<close>, for every beat value \<open>b\<close> and every widget size, a paint
  outlines the four boxes and fills exactly box \<open>b\<close> (the rectangle of the outline at
  index \<open>b - 1\<close>) when \<open>b\<close> is 1 to 4; for any other value no box is filled.
\<close>

theorem beat_bar_boxes:
  "filter (\<lambda>op. \<not> is_fillRect op) (BeatBarWidget_paintEvent w h (setBeat s b)) =
     map (\<lambda>x. drawRect (x * ((w - 19) div 4 + 6)) 0 ((w - 19) div 4) (h - 1) Qt_yellow)
       [0, 1, 2, 3] \<and>
   filter is_fillRect (BeatBarWidget_paintEvent w h (setBeat s b)) =
     (if 1 \<le> b \<and> b \<le> 4
      then [fillRect ((b - 1) * ((w - 19) div 4 + 6)) 0 ((w - 19) div 4) (h - 1) Qt_yellow]
      else [])"
proof -
  have "b = 1 \<or> b = 2 \<or> b = 3 \<or> b = 4 \<or> \<not> (1 \<le> b \<and> b \<le> 4)"
    by arith
  then show ?thesis
    by (auto simp: BeatBarWidget_paintEvent_def draw_box_def Let_def bar_beat_setBeat)
qed

theorem beat_bar_boxes_witness:
  "BeatBarWidget_paintEvent 100 12 (setBeat BeatBarWidget_init 3) =
     [drawRect 0 0 20 11 Qt_yellow, drawRect 26 0 20 11 Qt_yellow,
      drawRect 52 0 20 11 Qt_yellow, fillRect 52 0 20 11 Qt_yellow,
      drawRect 78 0 20 11 Qt_yellow] \<and>
   filter is_fillRect (BeatBarWidget_paintEvent 100 12 (setBeat BeatBarWidget_init 3)) =
     [fillRect 52 0 20 11 Qt_yellow] \<and>
   filter is_fillRect (BeatBarWidget_paintEvent 100 12 (setBeat BeatBarWidget_init 0)) = [] \<and>
   filter is_fillRect (BeatBarWidget_paintEvent 100 12 (setBeat BeatBarWidget_init 5)) = []"
  using beat_bar_boxes [of 100 12 BeatBarWidget_init 3]
    beat_bar_boxes [of 100 12 BeatBarWidget_init 0]
    beat_bar_boxes [of 100 12 BeatBarWidget_init 5]
  by (simp add: BeatBarWidget_paintEvent_def draw_box_def Let_def bar_beat_setBeat)

section \<open>Recomposition and beat-grid parse failures\<close>



text \<open>What a call of \<open>renderWaveformPixmap\<close> leaves, and when the setters call it.\<close>

lemma render_composited:
  "waveform_data s = Some d \<Longrightarrow>
   renderWaveformPixmap s =
     Inr (s\<lparr>pixmap := Some (composited (position_marker_offset s) d (beatgrid_data s)),
            logged := logged s @
              [log_info ''rendering waveform'', log_info ''rendering waveform done'']\<rparr>)"
  by (simp add: renderWaveformPixmap_def composited_def Let_def)

lemma render_if_data_result:
  "render_if_data t = Inr s' \<Longrightarrow>
   (case waveform_data t of
      None \<Rightarrow> s' = t
    | Some d \<Rightarrow>
        if d \<noteq> []
        then s' = t\<lparr>pixmap := Some (composited (position_marker_offset t) d (beatgrid_data t)),
                    logged := logged t @
                      [log_info ''rendering waveform'', log_info ''rendering waveform done'']\<rparr>
        else s' = t)"
  by (auto simp: render_if_data_def has_data_def render_composited split: option.splits if_splits)

lemma setBeatgridData_cases:
  "setBeatgridData parse s b = Inr s' \<Longrightarrow>
   (\<exists>g. parse b = Inr g \<and> render_if_data (s\<lparr>beatgrid_data := Some g\<rparr>) = Inr s') \<or>
   (\<exists>e. parse b = Inl e \<and> (e = RangeError \<or> e = FieldError) \<and>
      render_if_data
        (s\<lparr>logged := logged s @ [log_error ''Gui: failed to parse beatgrid data: %s'' e],
           beatgrid_data := None\<rparr>) = Inr s')"
  by (auto simp: setBeatgridData_def split: sum.splits if_splits)

lemma setBeatgridData_rebuilds:
  assumes "setBeatgridData parse s b = Inr s'"
  shows "beatgrid_data s' = (case parse b of Inr g \<Rightarrow> Some g | Inl x \<Rightarrow> None) \<and>
    (case waveform_data s of
       None \<Rightarrow> pixmap s' = pixmap s \<and> render_count s' = render_count s
     | Some d \<Rightarrow>
         if d \<noteq> []
         then pixmap s' =
                Some (composited (position_marker_offset s') d (beatgrid_data s')) \<and>
              render_count s' = render_count s + 1
         else pixmap s' = pixmap s \<and> render_count s' = render_count s)"
  using setBeatgridData_cases [OF assms]
  by (auto dest!: render_if_data_result simp: render_count_def split: option.splits if_splits)

text \<open>
  C9. For every entry-point call that returns normally: \<open>setData\<close> leaves the image
  composited anew from the new samples, the offset and the beat grid held;
  \<open>setBeatgridData\<close> leaves the image composited anew from the samples held and the new
  beat grid when the widget holds samples, and the image it found otherwise;
  \<open>setFrameCount\<close>, \<open>setPositionMarkerOffset\<close> and the timer leave the image they found.
  Each recomposition, and nothing else, logs once. A timer tick changes the scroll offset
  (and counts the redraw request) and nothing else.
\<close>

theorem recomposition_events:
  "step parse s e = Inr s' \<Longrightarrow>
   (case e of
      SetData buf \<Rightarrow>
        waveform_data s' = Some (drop 20 buf) \<and>
        pixmap s' =
          Some (composited (position_marker_offset s') (drop 20 buf) (beatgrid_data s')) \<and>
        render_count s' = render_count s + 1
    | SetBeatgridData buf \<Rightarrow>
        beatgrid_data s' = (case parse buf of Inr g \<Rightarrow> Some g | Inl x \<Rightarrow> None) \<and>
        (case waveform_data s of
           None \<Rightarrow> pixmap s' = pixmap s \<and> render_count s' = render_count s
         | Some d \<Rightarrow>
             if d \<noteq> []
             then pixmap s' =
                    Some (composited (position_marker_offset s') d (beatgrid_data s')) \<and>
                  render_count s' = render_count s + 1
             else pixmap s' = pixmap s \<and> render_count s' = render_count s)
    | SetFrameCount fr \<Rightarrow> pixmap s' = pixmap s \<and> render_count s' = render_count s
    | SetPositionMarkerOffset relative \<Rightarrow>
        pixmap s' = pixmap s \<and> render_count s' = render_count s
    | TimerEvent \<Rightarrow>
        s' = s\<lparr>offset := offset s', update_calls := update_calls s'\<rparr> \<and>
        pixmap s' = pixmap s \<and> render_count s' = render_count s)"
proof (cases e)
  case (SetData buf)
  assume "step parse s e = Inr s'"
  with SetData show ?thesis
    by (auto simp: setData_result render_count_def composited_def)
next
  case (SetBeatgridData buf)
  assume "step parse s e = Inr s'"
  with SetBeatgridData have "setBeatgridData parse s buf = Inr s'"
    by simp
  from setBeatgridData_rebuilds [OF this] SetBeatgridData show ?thesis
    by simp
next
  case (SetFrameCount fr)
  assume "step parse s e = Inr s'"
  with SetFrameCount show ?thesis
    by (auto dest!: setFrameCount_cases simp: render_count_def)
next
  case (SetPositionMarkerOffset r)
  assume "step parse s e = Inr s'"
  with SetPositionMarkerOffset show ?thesis
    by (auto dest!: setPositionMarkerOffset_cases simp: render_count_def)
next
  case TimerEvent
  assume "step parse s e = Inr s'"
  with TimerEvent show ?thesis
    by (auto simp: timerEvent_def render_count_def)
qed

text \<open>
  From the fixture state: a new detail buffer with the sample byte 37 replaces the image
  (one bar at 750, the two beats of the grid); a beat-grid buffer that does not parse
  replaces it by the image of the samples held without ticks; a timer tick leaves it as
  it is.
\<close>

theorem recomposition_events_witness:
  "step example_parse example_state
      (SetData [0,0,0,0,0, 0,0,0,0,0, 0,0,0,0,0, 0,0,0,0,0, 37]) =
     Inr (example_state
           \<lparr>waveform_data := Some [37],
            pixmap := Some
              \<lparr>pm_width = 751, pm_height = 75,
               painted = [fill Qt_black, drawLine 0 37 751 37 Qt_white,
                          drawLine 750 32 750 42 (QColor 36 36 255),
                          fillRect 899 0 4 8 Qt_red, fillRect 899 67 4 8 Qt_red,
                          fillRect 974 0 4 5 Qt_white, fillRect 974 70 4 5 Qt_white]\<rparr>,
            logged := [log_info ''rendering waveform'', log_info ''rendering waveform done'',
                       log_info ''rendering waveform'', log_info ''rendering waveform done'']\<rparr>) \<and>
   composited 750 [37] (Some example_grid) =
     \<lparr>pm_width = 751, pm_height = 75,
      painted = [fill Qt_black, drawLine 0 37 751 37 Qt_white,
                 drawLine 750 32 750 42 (QColor 36 36 255),
                 fillRect 899 0 4 8 Qt_red, fillRect 899 67 4 8 Qt_red,
                 fillRect 974 0 4 5 Qt_white, fillRect 974 70 4 5 Qt_white]\<rparr> \<and>
   step example_parse example_state (SetBeatgridData [1, 2, 3]) =
     Inr (example_state
           \<lparr>beatgrid_data := None,
            pixmap := Some
              \<lparr>pm_width = 751, pm_height = 75,
               painted = [fill Qt_black, drawLine 0 37 751 37 Qt_white,
                          drawLine 750 6 750 68 (QColor 252 252 255)]\<rparr>,
            logged := [log_info ''rendering waveform'', log_info ''rendering waveform done'',
                       log_error ''Gui: failed to parse beatgrid data: %s'' FieldError,
                       log_info ''rendering waveform'', log_info ''rendering waveform done'']\<rparr>) \<and>
   step example_parse example_state TimerEvent =
     Inr (example_state\<lparr>offset := 5, update_calls := 1\<rparr>) \<and>
   pixmap (example_state\<lparr>offset := 5, update_calls := 1\<rparr>) = pixmap example_state"
proof -
  let ?new = "example_state
           \<lparr>waveform_data := Some [37],
            pixmap := Some
              \<lparr>pm_width = 751, pm_height = 75,
               painted = [fill Qt_black, drawLine 0 37 751 37 Qt_white,
                          drawLine 750 32 750 42 (QColor 36 36 255),
                          fillRect 899 0 4 8 Qt_red, fillRect 899 67 4 8 Qt_red,
                          fillRect 974 0 4 5 Qt_white, fillRect 974 70 4 5 Qt_white]\<rparr>,
            logged := [log_info ''rendering waveform'', log_info ''rendering waveform done'',
                       log_info ''rendering waveform'', log_info ''rendering waveform done'']\<rparr>"
  have comp: "composited 750 [37] (Some example_grid) =
     \<lparr>pm_width = 751, pm_height = 75,
      painted = [fill Qt_black, drawLine 0 37 751 37 Qt_white,
                 drawLine 750 32 750 42 (QColor 36 36 255),
                 fillRect 899 0 4 8 Qt_red, fillRect 899 67 4 8 Qt_red,
                 fillRect 974 0 4 5 Qt_white, fillRect 974 70 4 5 Qt_white]\<rparr>"
    by (simp add: composited_def draw_waveform_def draw_sample_def draw_beat_def Let_def
        example_grid_def waveform_center_def waveform_height_def waveform_px_per_s_def
        drop_bit_eq_div)
  have data: "step example_parse example_state
      (SetData [0,0,0,0,0, 0,0,0,0,0, 0,0,0,0,0, 0,0,0,0,0, 37]) = Inr ?new"
    by (simp add: setData_result draw_waveform_def draw_sample_def draw_beat_def Let_def
        example_grid_def example_state_def waveform_center_def waveform_height_def
        waveform_px_per_s_def drop_bit_eq_div)
  have tick: "step example_parse example_state TimerEvent =
     Inr (example_state\<lparr>offset := 5, update_calls := 1\<rparr>)"
    by (simp add: timerEvent_def py_int_def example_state_def)
  have grid: "step example_parse example_state (SetBeatgridData [1, 2, 3]) =
     Inr (example_state
           \<lparr>beatgrid_data := None,
            pixmap := Some
              \<lparr>pm_width = 751, pm_height = 75,
               painted = [fill Qt_black, drawLine 0 37 751 37 Qt_white,
                          drawLine 750 6 750 68 (QColor 252 252 255)]\<rparr>,
            logged := [log_info ''rendering waveform'', log_info ''rendering waveform done'',
                       log_error ''Gui: failed to parse beatgrid data: %s'' FieldError,
                       log_info ''rendering waveform'', log_info ''rendering waveform done'']\<rparr>)"
    by (simp add: setBeatgridData_def example_parse_def render_if_data_def has_data_def
        renderWaveformPixmap_def Let_def draw_waveform_def draw_sample_def
        example_state_def waveform_center_def waveform_height_def drop_bit_eq_div)
  have same: "pixmap (example_state\<lparr>offset := 5, update_calls := 1\<rparr>) = pixmap example_state"
    by simp
  from recomposition_events [OF data] recomposition_events [OF grid]
    recomposition_events [OF tick] comp data grid tick same
  show ?thesis
    by blast
qed










end
